theory Spec2Isabelle
  imports Complex_Main "HOL-Library.Sublist" "HOL-Library.AList"
begin

section \<open>Values, strings and errors\<close>

text \<open>
  The program is \<^verbatim>\<open>tools/datasets/csvutil.py\<close>: a command-line filter over CSV manifests.
  A Python \<^verbatim>\<open>str\<close> is a sequence of Unicode code points, so a string is a list of
  natural numbers; \<open>str\<close> turns a literal into its code points.
\<close>

type_synonym pystr = "nat list"

definition str :: "string \<Rightarrow> pystr" where
  "str s = map of_char s"

text \<open>The exceptions the code and the library calls it makes can raise.\<close>

datatype error =
    AssertionError | AttributeError | IndexError | KeyError | TypeError
  | ValueError | OverflowError | ImportError | OSError | Cv2Error

text \<open>
  A value held in a table cell or passed to the caption functions: a string, a number
  (an int or a finite float, as the rational it denotes), the float \<^verbatim>\<open>np.nan\<close>, or
  \<^verbatim>\<open>None\<close>.
\<close>

datatype pyval = Str pystr | Num rat | NaN | PyNone

definition bind :: "error + 'a \<Rightarrow> ('a \<Rightarrow> error + 'b) \<Rightarrow> error + 'b" where
  "bind m f = (case m of Inl e \<Rightarrow> Inl e | Inr x \<Rightarrow> f x)"

subsection \<open>The string methods the code calls\<close>

text \<open>
  \<^verbatim>\<open>str.strip()\<close> removes the characters for which \<^verbatim>\<open>str.isspace\<close> holds from both
  ends; these are the 29 code points below.
\<close>

definition whitespace :: "nat list" where
  "whitespace =
     [9, 10, 11, 12, 13, 28, 29, 30, 31, 32, 133, 160, 5760,
      8192, 8193, 8194, 8195, 8196, 8197, 8198, 8199, 8200, 8201, 8202,
      8232, 8233, 8239, 8287, 12288]"

definition isspace :: "nat \<Rightarrow> bool" where
  "isspace c \<longleftrightarrow> c \<in> set whitespace"

definition strip :: "pystr \<Rightarrow> pystr" where
  "strip s = rev (dropWhile isspace (rev (dropWhile isspace s)))"

text \<open>
  What the Python runtime contributes and the repository does not hold is a parameter:
  \<^item> the case tables of the Unicode database beyond ASCII: \<open>uc_islower c\<close> is
    \<^verbatim>\<open>chr(c).islower()\<close> and \<open>uc_upper c\<close> is \<^verbatim>\<open>chr(c).upper()\<close> (it can be longer
    than one character) for a code point \<open>c \<ge> 128\<close>, and \<open>uc_lower s\<close> is
    \<^verbatim>\<open>s.lower()\<close> for a string that is not pure ASCII;
  \<^item> \<open>truediv a b\<close>: the float \<^verbatim>\<open>a / b\<close> of two ints, \<open>b \<noteq> 0\<close>, that is the double
    nearest to the quotient (a float is modelled by the rational it denotes);
  \<^item> \<open>format_float x\<close>: the text an f-string prints for the float \<open>x\<close>.
\<close>

record python =
  uc_islower :: "nat \<Rightarrow> bool"
  uc_upper :: "nat \<Rightarrow> pystr"
  uc_lower :: "pystr \<Rightarrow> pystr"
  truediv :: "int \<Rightarrow> int \<Rightarrow> rat"
  format_float :: "rat \<Rightarrow> pystr"

text \<open>
  On ASCII the case methods are fixed: the lowercase letters are \<open>a\<close> to \<open>z\<close> (97 to
  122), the uppercase ones \<open>A\<close> to \<open>Z\<close> (65 to 90). \<open>islower u c\<close> is
  \<^verbatim>\<open>c.islower()\<close> and \<open>upper u c\<close> is \<^verbatim>\<open>c.upper()\<close> for a one-character string
  \<open>c\<close>; \<open>lower u s\<close> is \<^verbatim>\<open>s.lower()\<close>.
\<close>

definition islower :: "python \<Rightarrow> nat \<Rightarrow> bool" where
  "islower u c \<longleftrightarrow> (if c < 128 then 97 \<le> c \<and> c \<le> 122 else uc_islower u c)"

definition upper :: "python \<Rightarrow> nat \<Rightarrow> pystr" where
  "upper u c =
     (if c < 128 then (if 97 \<le> c \<and> c \<le> 122 then [c - 32] else [c]) else uc_upper u c)"

definition lower :: "python \<Rightarrow> pystr \<Rightarrow> pystr" where
  "lower u s =
     (if list_all (\<lambda>c. c < 128) s
      then map (\<lambda>c. if 65 \<le> c \<and> c \<le> 90 then c + 32 else c) s
      else uc_lower u s)"

definition startswith :: "pystr \<Rightarrow> pystr \<Rightarrow> bool" where
  "startswith s p \<longleftrightarrow> prefix p s"

section \<open>Caption normaliser: \<^verbatim>\<open>remove_caption_prefix\<close>\<close>

definition LLAVA_PREFIX :: "pystr list" where
  "LLAVA_PREFIX = map str
     [''The video shows'',
      ''The video captures'',
      ''The video features'',
      ''The video depicts'',
      ''The video presents'',
      ''The video features'',
      ''The video is '',
      ''In the video,'',
      ''The image shows'',
      ''The image captures'',
      ''The image features'',
      ''The image depicts'',
      ''The image presents'',
      ''The image features'',
      ''The image is '',
      ''The image portrays'',
      ''In the image,'']"

text \<open>
  Lines 79-80: \<^verbatim>\<open>caption[0]\<close> raises IndexError on the empty string; otherwise a
  lowercase first character is replaced by its uppercase form.
\<close>

fun capitalize_first :: "python \<Rightarrow> pystr \<Rightarrow> error + pystr" where
  "capitalize_first u [] = Inl IndexError"
| "capitalize_first u (c # cs) = Inr (if islower u c then upper u c @ cs else c # cs)"

text \<open>
  The \<^verbatim>\<open>for prefix in LLAVA_PREFIX\<close> loop, by recursion on the prefixes still to try.
  Each round calls \<^verbatim>\<open>caption.startswith\<close>, which a value that is not a string does not
  have (a float first stops in \<^verbatim>\<open>breakpoint()\<close>, the debugger, which is not modelled).
  The first prefix that matches returns; when the loop runs out the function falls off
  its end and returns \<^verbatim>\<open>None\<close>.
\<close>

fun remove_caption_prefix_loop :: "python \<Rightarrow> pystr list \<Rightarrow> pyval \<Rightarrow> error + pyval" where
  "remove_caption_prefix_loop u [] caption = Inr PyNone"
| "remove_caption_prefix_loop u (p # ps) caption =
     (case caption of
        Str s \<Rightarrow>
          if startswith s p
          then bind (capitalize_first u (strip (drop (length p) s))) (\<lambda>r. Inr (Str r))
          else remove_caption_prefix_loop u ps caption
      | _ \<Rightarrow> Inl AttributeError)"

definition remove_caption_prefix :: "python \<Rightarrow> pyval \<Rightarrow> error + pyval" where
  "remove_caption_prefix u caption = remove_caption_prefix_loop u LLAVA_PREFIX caption"

text \<open>
  The repository's \<^verbatim>\<open>apply(df, func)\<close>: \<^verbatim>\<open>func\<close> on every element of a column, in
  order (with or without the parallel add-on); the first exception ends the run.
\<close>

fun apply_column :: "('a \<Rightarrow> error + 'b) \<Rightarrow> 'a list \<Rightarrow> error + 'b list" where
  "apply_column f [] = Inr []"
| "apply_column f (x # xs) =
     bind (f x) (\<lambda>y. bind (apply_column f xs) (\<lambda>ys. Inr (y # ys)))"

section \<open>Paths and formatting\<close>

text \<open>
  \<^verbatim>\<open>os.path\<close> is the POSIX one (separator \<open>/\<close>, code point 47; the extension
  separator \<open>.\<close> is 46). \<open>rfind s c\<close> is \<^verbatim>\<open>s.rfind(c)\<close> for a one-character \<open>c\<close>:
  the last index of \<open>c\<close>, or \<open>-1\<close>.
\<close>

definition rfind :: "pystr \<Rightarrow> nat \<Rightarrow> int" where
  "rfind s c =
     (if c \<in> set s
      then int (length s) - 1 - int (length (takeWhile (\<lambda>x. x \<noteq> c) (rev s)))
      else - 1)"

text \<open>
  \<^verbatim>\<open>genericpath._splitext\<close>: the extension starts at the last dot, unless that dot
  comes before the last separator or only dots stand between the separator and it.
\<close>

function splitext_loop :: "pystr \<Rightarrow> nat \<Rightarrow> nat \<Rightarrow> (pystr \<times> pystr) option" where
  "splitext_loop p filenameIndex dotIndex =
     (if filenameIndex < dotIndex
      then (if take 1 (drop filenameIndex p) \<noteq> [46]
            then Some (take dotIndex p, drop dotIndex p)
            else splitext_loop p (Suc filenameIndex) dotIndex)
      else None)"
  by pat_completeness auto
termination
  by (relation "measure (\<lambda>(p, filenameIndex, dotIndex). dotIndex - filenameIndex)") auto

definition splitext :: "pystr \<Rightarrow> pystr \<times> pystr" where
  "splitext p =
     (let sepIndex = rfind p 47; dotIndex = rfind p 46
      in if dotIndex > sepIndex
         then (case splitext_loop p (nat (sepIndex + 1)) (nat dotIndex) of
                 Some r \<Rightarrow> r
               | None \<Rightarrow> (p, []))
         else (p, []))"

definition basename :: "pystr \<Rightarrow> pystr" where
  "basename p = drop (nat (rfind p 47 + 1)) p"

definition rstrip_char :: "nat \<Rightarrow> pystr \<Rightarrow> pystr" where
  "rstrip_char c s = rev (dropWhile (\<lambda>x. x = c) (rev s))"

definition dirname :: "pystr \<Rightarrow> pystr" where
  "dirname p =
     (let head = take (nat (rfind p 47 + 1)) p
      in if head \<noteq> [] \<and> head \<noteq> replicate (length head) 47 then rstrip_char 47 head else head)"

definition join :: "pystr \<Rightarrow> pystr \<Rightarrow> pystr" where
  "join a b =
     (if startswith b [47] then b
      else if a = [] \<or> last a = 47 then a @ b
      else a @ [47] @ b)"

text \<open>\<^verbatim>\<open>s.split(".")[0]\<close>: the part before the first dot.\<close>

definition split_dot_first :: "pystr \<Rightarrow> pystr" where
  "split_dot_first s = takeWhile (\<lambda>c. c \<noteq> 46) s"

text \<open>\<^verbatim>\<open>s.replace(old, new)\<close>: every occurrence, left to right, without overlap.\<close>

fun replace :: "pystr \<Rightarrow> pystr \<Rightarrow> pystr \<Rightarrow> pystr" where
  "replace [] old new = (if old = [] then new else [])"
| "replace (c # cs) old new =
     (if old = [] then new @ c # replace cs old new
      else if prefix old (c # cs) then new @ replace (drop (length old - 1) cs) old new
      else c # replace cs old new)"

text \<open>The decimal digits of an integer, as an f-string prints it.\<close>

function str_of_nat :: "nat \<Rightarrow> pystr" where
  "str_of_nat n = (if n < 10 then [48 + n] else str_of_nat (n div 10) @ [48 + n mod 10])"
  by pat_completeness auto
termination
  by (relation "measure id") auto

definition str_of_int :: "int \<Rightarrow> pystr" where
  "str_of_int i = (if i < 0 then 45 # str_of_nat (nat (- i)) else str_of_nat (nat i))"

section \<open>Tables\<close>

text \<open>
  A DataFrame: the column names, in order, and the rows, in order, each row giving the
  value of every column. A cell a row does not list is a missing value.
\<close>

record dataframe =
  columns :: "pystr list"
  rows :: "(pystr \<times> pyval) list list"

definition cell :: "pystr \<Rightarrow> (pystr \<times> pyval) list \<Rightarrow> pyval" where
  "cell c r = (case map_of r c of Some v \<Rightarrow> v | None \<Rightarrow> NaN)"

text \<open>\<^verbatim>\<open>data[c]\<close> raises KeyError when there is no such column.\<close>

definition column :: "pystr \<Rightarrow> dataframe \<Rightarrow> error + pyval list" where
  "column c data = (if c \<in> set (columns data) then Inr (map (cell c) (rows data)) else Inl KeyError)"

text \<open>\<^verbatim>\<open>data[c] = values\<close>: overwrites the column or appends it as the last one.\<close>

definition set_column :: "pystr \<Rightarrow> pyval list \<Rightarrow> dataframe \<Rightarrow> dataframe" where
  "set_column c vs data =
     \<lparr>columns = (if c \<in> set (columns data) then columns data else columns data @ [c]),
      rows = map (\<lambda>(r, v). AList.update c v r) (zip (rows data) vs)\<rparr>"

text \<open>\<^verbatim>\<open>data[mask]\<close>: the rows whose entry of the boolean mask is true, in order.\<close>

definition select :: "bool list \<Rightarrow> dataframe \<Rightarrow> dataframe" where
  "select keep data = data\<lparr>rows := map fst (filter snd (zip (rows data) keep))\<rparr>"

definition assert_column :: "pystr \<Rightarrow> dataframe \<Rightarrow> error + unit" where
  "assert_column c data = (if c \<in> set (columns data) then Inr () else Inl AssertionError)"

text \<open>
  \<^verbatim>\<open>pd.concat(frames, ignore_index=True, sort=False)\<close>: the rows of all the frames in
  order, under the columns in the order they first appear; an empty list is refused.
\<close>

definition pd_concat :: "dataframe list \<Rightarrow> error + dataframe" where
  "pd_concat frames =
     (if frames = [] then Inl ValueError
      else let cols = rev (remdups (rev (concat (map columns frames))))
           in Inr \<lparr>columns = cols,
                   rows = map (\<lambda>r. map (\<lambda>c. (c, cell c r)) cols) (concat (map rows frames))\<rparr>)"

subsection \<open>Difference and intersection against a reference table\<close>

text \<open>
  Lines 212 and 220. \<^verbatim>\<open>Series.isin\<close> is membership among the reference's values;
  the mask keeps the rows whose path is not (difference) or is (intersection) among them.
\<close>

definition isin :: "pyval list \<Rightarrow> pyval list \<Rightarrow> bool list" where
  "isin vs ref = map (\<lambda>v. v \<in> set ref) vs"

definition make_difference :: "dataframe \<Rightarrow> dataframe \<Rightarrow> error + dataframe" where
  "make_difference data data_diff =
     bind (column (str ''path'') data) (\<lambda>paths.
     bind (column (str ''path'') data_diff) (\<lambda>ref.
     Inr (select (map Not (isin paths ref)) data)))"

definition make_intersection :: "dataframe \<Rightarrow> dataframe \<Rightarrow> error + dataframe" where
  "make_intersection data data_int =
     bind (column (str ''path'') data) (\<lambda>paths.
     bind (column (str ''path'') data_int) (\<lambda>ref.
     Inr (select (isin paths ref) data)))"

subsection \<open>Sharding: \<^verbatim>\<open>np.array_split\<close>\<close>

text \<open>
  \<^verbatim>\<open>np.array_split(ary, n)\<close> for an integer \<open>n\<close>, as numpy computes it: \<open>n \<le> 0\<close> is
  refused; otherwise the first \<open>Ntotal mod n\<close> sections get \<open>Ntotal div n + 1\<close>
  elements and the others \<open>Ntotal div n\<close>, and section \<open>i\<close> is the slice between the
  \<open>i\<close>-th and the next cumulative sum of these sizes.
\<close>

fun cumsum_from :: "nat \<Rightarrow> nat list \<Rightarrow> nat list" where
  "cumsum_from acc [] = []"
| "cumsum_from acc (x # xs) = (acc + x) # cumsum_from (acc + x) xs"

definition cumsum :: "nat list \<Rightarrow> nat list" where
  "cumsum xs = cumsum_from 0 xs"

definition slice :: "'a list \<Rightarrow> nat \<Rightarrow> nat \<Rightarrow> 'a list" where
  "slice xs st en = take (en - st) (drop st xs)"

definition array_split :: "'a list \<Rightarrow> int \<Rightarrow> error + 'a list list" where
  "array_split ary n =
     (if n \<le> 0 then Inl ValueError
      else let Ntotal = length ary;
               Nsections = nat n;
               Neach_section = Ntotal div Nsections;
               extras = Ntotal mod Nsections;
               section_sizes = [0] @ replicate extras (Neach_section + 1)
                                 @ replicate (Nsections - extras) Neach_section;
               div_points = cumsum section_sizes
           in Inr (map (\<lambda>i. slice ary (div_points ! i) (div_points ! (i + 1))) [0..<Nsections]))"

section \<open>Media prober: \<^verbatim>\<open>get_video_info\<close>\<close>

definition IMG_EXTENSIONS :: "pystr list" where
  "IMG_EXTENSIONS = map str
     [''.jpg'', ''.jpeg'', ''.png'', ''.ppm'', ''.bmp'', ''.pgm'', ''.tif'', ''.tiff'', ''.webp'']"

text \<open>
  OpenCV is outside the repository, so what it does is a parameter. \<open>imread c path\<close>
  is the outcome of \<^verbatim>\<open>cv2.imread(path)\<close>: an exception (OpenCV raises
  \<^verbatim>\<open>cv2.error\<close> on some files, an oversized image for one), \<^verbatim>\<open>None\<close> when the file
  cannot be read, or an image, given by the first two entries of its shape, height and
  width. \<open>cap_get c path prop\<close> is the outcome of
  \<^verbatim>\<open>cv2.VideoCapture(path).get(prop)\<close>, a float.
\<close>

datatype cap_prop =
  CAP_PROP_FRAME_COUNT | CAP_PROP_FRAME_HEIGHT | CAP_PROP_FRAME_WIDTH | CAP_PROP_FPS

record cv2 =
  imread :: "pystr \<Rightarrow> error + (int \<times> int) option"
  cap_get :: "pystr \<Rightarrow> cap_prop \<Rightarrow> error + pyval"

text \<open>\<^verbatim>\<open>int(x)\<close> of a float truncates towards zero and refuses NaN.\<close>

definition py_int :: "pyval \<Rightarrow> error + int" where
  "py_int v =
     (case v of
        Num r \<Rightarrow> Inr (if r < 0 then \<lceil>r\<rceil> else \<lfloor>r\<rfloor>)
      | NaN \<Rightarrow> Inl ValueError
      | _ \<Rightarrow> Inl TypeError)"

text \<open>
  Line 48: \<^verbatim>\<open>height / width if width > 0 else np.nan\<close>.
\<close>

definition aspect_ratio_of :: "python \<Rightarrow> int \<Rightarrow> int \<Rightarrow> pyval" where
  "aspect_ratio_of u height width = (if width > 0 then Num (truediv u height width) else NaN)"

text \<open>
  The result is the tuple \<open>(num_frames, height, width, aspect_ratio, fps)\<close>. Nothing in
  the function catches an exception: what \<^verbatim>\<open>cv2.imread\<close> or the capture raises ends
  the call. A path that is not a string is refused by \<^verbatim>\<open>os.path.splitext\<close>.
\<close>

definition get_video_info ::
  "python \<Rightarrow> cv2 \<Rightarrow> pyval \<Rightarrow> error + (int \<times> int \<times> int \<times> pyval \<times> pyval)" where
  "get_video_info u c path =
     (case path of
        Str p \<Rightarrow>
          (let ext = lower u (snd (splitext p))
           in if ext \<in> set IMG_EXTENSIONS
              then bind (imread c p) (\<lambda>im.
                   case im of
                     None \<Rightarrow> Inr (0, 0, 0, NaN, NaN)
                   | Some (height, width) \<Rightarrow>
                       Inr (1, height, width, aspect_ratio_of u height width, NaN))
              else bind (bind (cap_get c p CAP_PROP_FRAME_COUNT) py_int) (\<lambda>num_frames.
                   bind (bind (cap_get c p CAP_PROP_FRAME_HEIGHT) py_int) (\<lambda>height.
                   bind (bind (cap_get c p CAP_PROP_FRAME_WIDTH) py_int) (\<lambda>width.
                   bind (cap_get c p CAP_PROP_FPS) (\<lambda>fps.
                   Inr (num_frames, height, width, aspect_ratio_of u height width, fps))))))
      | _ \<Rightarrow> Inl TypeError)"

section \<open>Caption normaliser: \<^verbatim>\<open>html.unescape\<close>\<close>

text \<open>
  \<^verbatim>\<open>--unescape\<close> maps the standard library's \<^verbatim>\<open>html.unescape\<close> over the captions.
  The function is not part of the repository; it is translated here from CPython's
  \<^verbatim>\<open>Lib/html/__init__.py\<close>. The table \<^verbatim>\<open>html.entities.html5\<close> of named references
  (2231 entries) is a parameter.
\<close>

definition invalid_charrefs :: "(nat \<times> nat) list" where
  "invalid_charrefs =
     [(0, 65533), (13, 13), (128, 8364), (129, 129), (130, 8218), (131, 402),
      (132, 8222), (133, 8230), (134, 8224), (135, 8225), (136, 710), (137, 8240),
      (138, 352), (139, 8249), (140, 338), (141, 141), (142, 381), (143, 143),
      (144, 144), (145, 8216), (146, 8217), (147, 8220), (148, 8221), (149, 8226),
      (150, 8211), (151, 8212), (152, 732), (153, 8482), (154, 353), (155, 8250),
      (156, 339), (157, 157), (158, 382), (159, 376)]"

text \<open>
  The set \<^verbatim>\<open>_invalid_codepoints\<close>: 0x1 to 0x8, 0xE to 0x1F, 0x7F to 0x9F, 0xFDD0 to
  0xFDEF, and the others the source lists one by one.
\<close>

definition invalid_codepoints :: "nat list" where
  "invalid_codepoints =
     [1..<9] @ [14..<32] @ [127..<160] @ [64976..<65008] @
     [11, 65534, 65535, 131070, 131071, 196606, 196607, 262142,
      262143, 327678, 327679, 393214, 393215, 458750, 458751, 524286,
      524287, 589822, 589823, 655358, 655359, 720894, 720895, 786430,
      786431, 851966, 851967, 917502, 917503, 983038, 983039, 1048574,
      1048575, 1114110, 1114111]"

definition isdigit :: "nat \<Rightarrow> bool" where
  "isdigit c \<longleftrightarrow> 48 \<le> c \<and> c \<le> 57"

definition ishex :: "nat \<Rightarrow> bool" where
  "ishex c \<longleftrightarrow> isdigit c \<or> (97 \<le> c \<and> c \<le> 102) \<or> (65 \<le> c \<and> c \<le> 70)"

text \<open>The class \<^verbatim>\<open>[^\t\n\f <&#;]\<close> of the third alternative.\<close>

definition name_char :: "nat \<Rightarrow> bool" where
  "name_char c \<longleftrightarrow> c \<notin> set [9, 10, 12, 32, 60, 38, 35, 59]"

definition digit_val :: "nat \<Rightarrow> nat" where
  "digit_val c = (if isdigit c then c - 48 else if 97 \<le> c then c - 87 else c - 55)"

text \<open>
  \<^verbatim>\<open>int(s, base)\<close> on a string of digits. Since CPython 3.11 (and the security
  releases of 3.7 to 3.10) a decimal string of more than 4300 digits is refused with
  ValueError; bases that are powers of two have no limit.
\<close>

definition int_max_str_digits :: nat where
  "int_max_str_digits = 4300"

definition py_int_str :: "nat \<Rightarrow> pystr \<Rightarrow> error + nat" where
  "py_int_str base ds =
     (if base = 10 \<and> length ds > int_max_str_digits then Inl ValueError
      else Inr (foldl (\<lambda>n d. n * base + digit_val d) 0 ds))"

text \<open>
  The pattern \<^verbatim>\<open>&(#[0-9]+;?|#[xX][0-9a-fA-F]+;?|[^\t\n\f <&#;]{1,32};?)\<close>, tried on
  the text that follows an \<open>&\<close>: the result is group 1 of the match. The alternatives are
  tried in order and each repetition is greedy.
\<close>

definition opt_semi :: "pystr \<Rightarrow> pystr" where
  "opt_semi r = (case r of [] \<Rightarrow> [] | c # _ \<Rightarrow> if c = 59 then [59] else [])"

definition match_charref :: "pystr \<Rightarrow> pystr option" where
  "match_charref rest =
     (case rest of
        [] \<Rightarrow> None
      | c # r1 \<Rightarrow>
          if c = 35 then
            (let ds = takeWhile isdigit r1
             in if ds \<noteq> [] then Some (35 # ds @ opt_semi (drop (length ds) r1))
                else (case r1 of
                        [] \<Rightarrow> None
                      | x # r2 \<Rightarrow>
                          if x = 120 \<or> x = 88 then
                            (let hs = takeWhile ishex r2
                             in if hs \<noteq> [] then Some (35 # x # hs @ opt_semi (drop (length hs) r2))
                                else None)
                          else None))
          else
            (let name = takeWhile name_char (take 32 rest)
             in if name \<noteq> [] then Some (name @ opt_semi (drop (length name) rest))
                else None))"

text \<open>
  \<^verbatim>\<open>_replace_charref\<close>, on group 1. The loop
  \<^verbatim>\<open>for x in range(len(s)-1, 1, -1)\<close> looks for the longest proper prefix of at least
  two characters that is a name of the table.
\<close>

fun longest_name_loop :: "(pystr \<Rightarrow> pystr option) \<Rightarrow> pystr \<Rightarrow> nat \<Rightarrow> pystr" where
  "longest_name_loop html5 s 0 = 38 # s"
| "longest_name_loop html5 s (Suc k) =
     (if Suc k \<le> 1 then 38 # s
      else (case html5 (take (Suc k) s) of
              Some v \<Rightarrow> v @ drop (Suc k) s
            | None \<Rightarrow> longest_name_loop html5 s k))"

definition replace_charref :: "(pystr \<Rightarrow> pystr option) \<Rightarrow> pystr \<Rightarrow> error + pystr" where
  "replace_charref html5 s =
     (case s of
        [] \<Rightarrow> Inl IndexError
      | c # r \<Rightarrow>
          if c = 35 then
            bind (case r of
                    [] \<Rightarrow> Inl IndexError
                  | x # r' \<Rightarrow>
                      if x = 120 \<or> x = 88 then py_int_str 16 (rstrip_char 59 r')
                      else py_int_str 10 (rstrip_char 59 r))
              (\<lambda>num. Inr
                 (case map_of invalid_charrefs num of
                    Some v \<Rightarrow> [v]
                  | None \<Rightarrow>
                      if (55296 \<le> num \<and> num \<le> 57343) \<or> num > 1114111 then [65533]
                      else if num \<in> set invalid_codepoints then []
                      else [num]))
          else
            Inr (case html5 s of
                   Some v \<Rightarrow> v
                 | None \<Rightarrow> longest_name_loop html5 s (length s - 1)))"

text \<open>
  \<^verbatim>\<open>_charref.sub(_replace_charref, s)\<close>: the text is scanned from the left; a match is
  replaced and the scan goes on after it, any other character is kept.
\<close>

fun charref_sub :: "(pystr \<Rightarrow> pystr option) \<Rightarrow> pystr \<Rightarrow> error + pystr" where
  "charref_sub html5 [] = Inr []"
| "charref_sub html5 (c # cs) =
     (if c = 38
      then (case match_charref cs of
              Some g \<Rightarrow>
                bind (replace_charref html5 g) (\<lambda>r.
                bind (charref_sub html5 (drop (length g) cs)) (\<lambda>rest. Inr (r @ rest)))
            | None \<Rightarrow> bind (charref_sub html5 cs) (\<lambda>rest. Inr (c # rest)))
      else bind (charref_sub html5 cs) (\<lambda>rest. Inr (c # rest)))"

definition unescape_str :: "(pystr \<Rightarrow> pystr option) \<Rightarrow> pystr \<Rightarrow> error + pystr" where
  "unescape_str html5 s = (if 38 \<notin> set s then Inr s else charref_sub html5 s)"

text \<open>On a value that is not a string, \<^verbatim>\<open>'&' not in s\<close> raises TypeError.\<close>

definition html_unescape :: "(pystr \<Rightarrow> pystr option) \<Rightarrow> pyval \<Rightarrow> error + pyval" where
  "html_unescape html5 s =
     (case s of
        Str t \<Rightarrow> bind (unescape_str html5 t) (\<lambda>r. Inr (Str r))
      | _ \<Rightarrow> Inl TypeError)"


text \<open>The table's entries for the five references that XML predefines.\<close>

definition html5_xml :: "pystr \<Rightarrow> pystr option" where
  "html5_xml = map_of (map (\<lambda>(k, v). (str k, str v))
     [(''AMP'', ''&''), (''amp'', ''&''), (''AMP;'', ''&''), (''amp;'', ''&''),
      (''GT'', ''>''), (''gt'', ''>''), (''GT;'', ''>''), (''gt;'', ''>''),
      (''LT'', ''<''), (''lt'', ''<''), (''LT;'', ''<''), (''lt;'', ''<''),
      (''QUOT'', [CHR 0x22]), (''quot'', [CHR 0x22]), (''QUOT;'', [CHR 0x22]),
      (''quot;'', [CHR 0x22]), (''apos;'', [CHR 0x27])])"

section \<open>Pipeline driver\<close>

subsection \<open>Command line\<close>

text \<open>
  The namespace \<^verbatim>\<open>parse_args\<close> returns, one field per option with its default
  (\<open>None\<close> or false when the option is absent). The flag \<^verbatim>\<open>--remove-caption-prefix\<close>
  is the field \<open>remove_caption_prefix_flag\<close>, and \<^verbatim>\<open>args.input\<close> and
  \<^verbatim>\<open>args.output\<close> are \<open>args_input\<close> and \<open>args_output\<close>.
\<close>

record args =
  args_input :: "pystr list"
  args_output :: "pystr option"
  disable_parallel :: bool
  shard :: "int option"
  sort_descending :: "pystr option"
  sort_ascending :: "pystr option"
  difference :: "pystr option"
  intersection :: "pystr option"
  relpath :: "pystr option"
  abspath :: "pystr option"
  ext :: bool
  remove_empty_caption :: bool
  lang :: "pystr option"
  remove_url :: bool
  remove_caption_prefix_flag :: bool
  unescape :: bool
  info :: bool
  fmin :: "int option"
  fmax :: "int option"
  aesmin :: "rat option"
  matchmin :: "rat option"

subsection \<open>What the run takes from outside\<close>

text \<open>
  The file system and the libraries the driver calls are parameters of the model:
  \<^item> \<open>glob\<close>, \<open>read_csv\<close>: \<^verbatim>\<open>glob.glob\<close> and \<^verbatim>\<open>pd.read_csv\<close>;
  \<^item> \<open>os_path_exists\<close>, \<open>os_path_relpath\<close>: \<^verbatim>\<open>os.path.exists(x)\<close> and
    \<^verbatim>\<open>os.path.relpath(x, start)\<close> on a cell \<open>x\<close>;
  \<^item> \<open>str_len_positive\<close>: the mask \<^verbatim>\<open>data["text"].str.len() > 0\<close>;
  \<^item> \<open>url_free\<close>: the mask \<^verbatim>\<open>~data["text"].str.contains(r"(?P<url>https?://[^\s]+)")\<close>;
  \<^item> \<open>detect_lang\<close>: the closure \<^verbatim>\<open>build_lang_detector\<close> returns, on a cell;
  \<^item> \<open>runtime\<close>, \<open>video\<close>: the Python runtime's tables and OpenCV, as above;
  \<^item> \<open>sort_values\<close>: \<^verbatim>\<open>data.sort_values(by=col, ascending=asc)\<close>;
  \<^item> \<open>html5\<close>: the table of named character references.
  Imports are taken to succeed, and writing a file to succeed.
\<close>

record env =
  glob :: "pystr \<Rightarrow> pystr list"
  read_csv :: "pystr \<Rightarrow> error + dataframe"
  os_path_exists :: "pyval \<Rightarrow> error + bool"
  os_path_relpath :: "pyval \<Rightarrow> pystr \<Rightarrow> error + pyval"
  str_len_positive :: "pyval list \<Rightarrow> error + bool list"
  url_free :: "pyval list \<Rightarrow> error + bool list"
  detect_lang :: "pyval \<Rightarrow> error + bool"
  runtime :: python
  video :: cv2
  sort_values :: "dataframe \<Rightarrow> pystr \<Rightarrow> bool \<Rightarrow> error + dataframe"
  html5 :: "pystr \<Rightarrow> pystr option"

subsection \<open>\<^verbatim>\<open>get_output_path\<close>\<close>

definition suffix_if :: "bool \<Rightarrow> pystr \<Rightarrow> pystr \<Rightarrow> pystr" where
  "suffix_if b sfx name = (if b then name @ sfx else name)"

definition suffix_opt :: "'a option \<Rightarrow> ('a \<Rightarrow> pystr) \<Rightarrow> pystr \<Rightarrow> pystr" where
  "suffix_opt x sfx name = (case x of None \<Rightarrow> name | Some v \<Rightarrow> name @ sfx v)"

text \<open>
  An explicit \<^verbatim>\<open>--output\<close> is returned at once (lines 139-140). Otherwise the name is
  the input name with one suffix per enabled option; the assertions of lines 181 and
  184 (assertions are on, as they are by default) refuse a run that gives both sort
  options.
\<close>

definition get_output_path :: "env \<Rightarrow> args \<Rightarrow> pystr \<Rightarrow> error + pystr" where
  "get_output_path e a input_name =
     (case args_output a of
        Some out \<Rightarrow> Inr out
      | None \<Rightarrow>
          (case args_input a of
             [] \<Rightarrow> Inl IndexError
           | first # _ \<Rightarrow>
               (let dir_path = dirname first;
                    name = input_name;
                    name = suffix_if (relpath a \<noteq> None) (str ''_relpath'') name;
                    name = suffix_if (abspath a \<noteq> None) (str ''_abspath'') name;
                    name = suffix_if (ext a) (str ''_ext'') name;
                    name = suffix_if (remove_empty_caption a) (str ''_noempty'') name;
                    name = suffix_opt (lang a) (\<lambda>l. str ''_'' @ l) name;
                    name = suffix_if (remove_url a) (str ''_nourl'') name;
                    name = suffix_if (remove_caption_prefix_flag a) (str ''_rcp'') name;
                    name = suffix_if (unescape a) (str ''_unescape'') name;
                    name = suffix_if (info a) (str ''_info'') name;
                    name = suffix_opt (fmin a) (\<lambda>n. str ''_fmin'' @ str_of_int n) name;
                    name = suffix_opt (fmax a) (\<lambda>n. str ''_fmax'' @ str_of_int n) name;
                    name = suffix_opt (aesmin a) (\<lambda>x. str ''_aesmin'' @ format_float (runtime e) x) name;
                    name = suffix_opt (matchmin a) (\<lambda>x. str ''_matchmin'' @ format_float (runtime e) x) name
                in bind (case sort_descending a of
                           None \<Rightarrow> Inr name
                         | Some _ \<Rightarrow>
                             if sort_ascending a = None then Inr (name @ str ''_sort'')
                             else Inl AssertionError) (\<lambda>name.
                   bind (case sort_ascending a of
                           None \<Rightarrow> Inr name
                         | Some _ \<Rightarrow>
                             if sort_descending a = None then Inr (name @ str ''_sort'')
                             else Inl AssertionError) (\<lambda>name.
                   Inr (join dir_path (name @ str ''.csv'')))))))"

subsection \<open>The stages of \<^verbatim>\<open>main\<close>\<close>

text \<open>Lines 193-206: reading the inputs. The input name joins the files' stems with \<open>+\<close>.\<close>

fun build_input_name :: "pystr list \<Rightarrow> pystr" where
  "build_input_name [] = []"
| "build_input_name [p] = split_dot_first (basename p)"
| "build_input_name (p # ps) = split_dot_first (basename p) @ str ''+'' @ build_input_name ps"

definition load :: "env \<Rightarrow> args \<Rightarrow> error + (dataframe \<times> pystr)" where
  "load e a =
     (let input_list = concat (map (glob e) (args_input a))
      in bind (apply_column (read_csv e) input_list) (\<lambda>frames.
         bind (pd_concat frames) (\<lambda>data.
         Inr (data, build_input_name input_list))))"

text \<open>Lines 209-222.\<close>

definition stage_difference :: "env \<Rightarrow> args \<Rightarrow> dataframe \<times> pystr \<Rightarrow> error + (dataframe \<times> pystr)" where
  "stage_difference e a = (\<lambda>(data, input_name).
     case difference a of
       None \<Rightarrow> Inr (data, input_name)
     | Some f \<Rightarrow>
         bind (read_csv e f) (\<lambda>data_diff.
         bind (make_difference data data_diff) (\<lambda>data.
         Inr (data, input_name @ str ''-'' @ split_dot_first (basename f)))))"

definition stage_intersection :: "env \<Rightarrow> args \<Rightarrow> dataframe \<times> pystr \<Rightarrow> error + (dataframe \<times> pystr)" where
  "stage_intersection e a = (\<lambda>(data, input_name).
     case intersection a of
       None \<Rightarrow> Inr (data, input_name)
     | Some f \<Rightarrow>
         bind (read_csv e f) (\<lambda>data_int.
         bind (make_intersection data data_int) (\<lambda>data.
         Inr (data, input_name @ str ''-'' @ split_dot_first (basename f)))))"

text \<open>Lines 84-99 and 228-229: only \<open>en\<close> is a key of \<^verbatim>\<open>lang_dict\<close>.\<close>

definition build_lang_detector :: "pystr \<Rightarrow> error + unit" where
  "build_lang_detector lang_to_detect =
     (if lang_to_detect \<in> set [str ''en''] then Inr () else Inl AssertionError)"

definition prepare :: "args \<Rightarrow> error + unit" where
  "prepare a = (case lang a of None \<Rightarrow> Inr () | Some l \<Rightarrow> build_lang_detector l)"

text \<open>
  A filter whose mask is computed from one column: the assertion that the column is
  there, the mask, and the selection of the rows.
\<close>

definition filter_by ::
  "pystr \<Rightarrow> (pyval list \<Rightarrow> error + bool list) \<Rightarrow> dataframe \<Rightarrow> error + dataframe" where
  "filter_by c mask_of data =
     bind (assert_column c data) (\<lambda>_.
     bind (column c data) (\<lambda>vs.
     bind (mask_of vs) (\<lambda>keep. Inr (select keep data))))"

definition notna :: "pyval \<Rightarrow> bool" where
  "notna v \<longleftrightarrow> v \<noteq> NaN \<and> v \<noteq> PyNone"

text \<open>Lines 232-244.\<close>

definition pre_filters :: "env \<Rightarrow> args \<Rightarrow> dataframe \<Rightarrow> error + dataframe" where
  "pre_filters e a data =
     bind (if ext a then filter_by (str ''path'') (apply_column (os_path_exists e)) data
           else Inr data) (\<lambda>data.
     bind (if remove_empty_caption a
           then bind (filter_by (str ''text'') (str_len_positive e) data) (\<lambda>data.
                bind (column (str ''text'') data) (\<lambda>vs. Inr (select (map notna vs) data)))
           else Inr data) (\<lambda>data.
     bind (if remove_url a then filter_by (str ''text'') (url_free e) data else Inr data) (\<lambda>data.
     (if lang a \<noteq> None then filter_by (str ''text'') (apply_column (detect_lang e)) data
      else Inr data))))"

text \<open>
  A processor that rewrites one column. \<open>asserted\<close> tells whether the code asserts the
  column's presence first; without the assertion a missing column is a KeyError.
\<close>

definition process_column ::
  "bool \<Rightarrow> pystr \<Rightarrow> (pyval \<Rightarrow> error + pyval) \<Rightarrow> dataframe \<Rightarrow> error + dataframe" where
  "process_column asserted c f data =
     bind (if asserted then assert_column c data else Inr ()) (\<lambda>_.
     bind (column c data) (\<lambda>vs.
     bind (apply_column f vs) (\<lambda>ws. Inr (set_column c ws data))))"

definition os_path_join :: "pystr \<Rightarrow> pyval \<Rightarrow> error + pyval" where
  "os_path_join base x = (case x of Str p \<Rightarrow> Inr (Str (join base p)) | _ \<Rightarrow> Inl TypeError)"

text \<open>
  Lines 257-259: the five derived columns. Unpacking \<^verbatim>\<open>zip(*info)\<close> into five
  targets fails with ValueError when there is no row.
\<close>

definition add_info :: "env \<Rightarrow> dataframe \<Rightarrow> error + dataframe" where
  "add_info e data =
     bind (column (str ''path'') data) (\<lambda>paths.
     bind (apply_column (get_video_info (runtime e) (video e)) paths) (\<lambda>infos.
     if infos = [] then Inl ValueError
     else Inr (set_column (str ''fps'') (map (\<lambda>(n, h, w, ar, fps). fps) infos)
              (set_column (str ''aspect_ratio'') (map (\<lambda>(n, h, w, ar, fps). ar) infos)
              (set_column (str ''width'') (map (\<lambda>(n, h, w, ar, fps). Num (of_int w)) infos)
              (set_column (str ''height'') (map (\<lambda>(n, h, w, ar, fps). Num (of_int h)) infos)
              (set_column (str ''num_frames'') (map (\<lambda>(n, h, w, ar, fps). Num (of_int n)) infos)
                 data)))))))"

text \<open>Lines 247-259.\<close>

definition processing :: "env \<Rightarrow> args \<Rightarrow> dataframe \<Rightarrow> error + dataframe" where
  "processing e a data =
     bind (case relpath a of
             None \<Rightarrow> Inr data
           | Some start \<Rightarrow> process_column False (str ''path'') (\<lambda>x. os_path_relpath e x start) data)
       (\<lambda>data.
     bind (case abspath a of
             None \<Rightarrow> Inr data
           | Some base \<Rightarrow> process_column False (str ''path'') (os_path_join base) data) (\<lambda>data.
     bind (if remove_caption_prefix_flag a
           then process_column True (str ''text'') (remove_caption_prefix (runtime e)) data
           else Inr data) (\<lambda>data.
     bind (if unescape a
           then process_column True (str ''text'') (html_unescape (html5 e)) data
           else Inr data) (\<lambda>data.
     (if info a then add_info e data else Inr data)))))"

text \<open>
  Lines 262-273. A comparison of a column with a number is false on a missing float
  and a TypeError on a string or \<^verbatim>\<open>None\<close>.
\<close>

definition compare_cell :: "(rat \<Rightarrow> bool) \<Rightarrow> pyval \<Rightarrow> error + bool" where
  "compare_cell test v =
     (case v of Num r \<Rightarrow> Inr (test r) | NaN \<Rightarrow> Inr False | _ \<Rightarrow> Inl TypeError)"

definition post_filters :: "args \<Rightarrow> dataframe \<Rightarrow> error + dataframe" where
  "post_filters a data =
     bind (case fmin a of
             None \<Rightarrow> Inr data
           | Some k \<Rightarrow> filter_by (str ''num_frames'')
                         (apply_column (compare_cell (\<lambda>r. r \<ge> of_int k))) data) (\<lambda>data.
     bind (case fmax a of
             None \<Rightarrow> Inr data
           | Some k \<Rightarrow> filter_by (str ''num_frames'')
                         (apply_column (compare_cell (\<lambda>r. r \<le> of_int k))) data) (\<lambda>data.
     bind (case aesmin a of
             None \<Rightarrow> Inr data
           | Some x \<Rightarrow> filter_by (str ''aes'') (apply_column (compare_cell (\<lambda>r. r \<ge> x))) data)
       (\<lambda>data.
     (case matchmin a of
        None \<Rightarrow> Inr data
      | Some x \<Rightarrow> filter_by (str ''match'') (apply_column (compare_cell (\<lambda>r. r \<ge> x))) data))))"

text \<open>Lines 277-280: first the descending sort, then the ascending one, each if asked for.\<close>

definition sort_stage :: "env \<Rightarrow> args \<Rightarrow> dataframe \<Rightarrow> error + dataframe" where
  "sort_stage e a data =
     bind (case sort_descending a of
             None \<Rightarrow> Inr data
           | Some c \<Rightarrow> sort_values e data c False) (\<lambda>data.
     (case sort_ascending a of
        None \<Rightarrow> Inr data
      | Some c \<Rightarrow> sort_values e data c True))"

text \<open>Lines 283-291: the files written, each with its path and its table.\<close>

definition save :: "args \<Rightarrow> pystr \<Rightarrow> dataframe \<Rightarrow> error + (pystr \<times> dataframe) list" where
  "save a output_path data =
     (case shard a of
        Some n \<Rightarrow>
          bind (array_split (rows data) n) (\<lambda>sharded_data.
          Inr (map (\<lambda>i. (replace output_path (str ''.csv'') (str ''_'' @ str_of_nat i @ str ''.csv''),
                         data\<lparr>rows := sharded_data ! i\<rparr>))
                 [0..<nat n]))
      | None \<Rightarrow> Inr [(output_path, data)])"

text \<open>
  \<^verbatim>\<open>main\<close>: the result is the exception that ends the run, with no file written, or
  the list of the files written.
\<close>

definition main :: "env \<Rightarrow> args \<Rightarrow> error + (pystr \<times> dataframe) list" where
  "main e a =
     bind (load e a) (\<lambda>loaded.
     bind (stage_difference e a loaded) (\<lambda>loaded.
     bind (stage_intersection e a loaded) (\<lambda>(data, input_name).
     bind (get_output_path e a input_name) (\<lambda>output_path.
     bind (prepare a) (\<lambda>_.
     bind (pre_filters e a data) (\<lambda>data.
     bind (processing e a data) (\<lambda>data.
     bind (post_filters a data) (\<lambda>data.
     bind (sort_stage e a data) (\<lambda>data.
     save a output_path data)))))))))"

subsection \<open>An environment and a command line for the examples\<close>

text \<open>
  One manifest \<open>meta.csv\<close> of three rows with the scores 0.2, 0.9 and 0.5, a reference
  table of two paths, and a table of two captions. Of the Unicode tables the examples
  need two entries: \<open>U+00E9\<close> (233) is lowercase with the uppercase form \<open>U+00C9\<close> (201),
  and \<open>U+00DF\<close> (223) is lowercase with the uppercase form \<open>SS\<close>; no example asks for
  another entry, lowercases a string that is not ASCII or prints a float, and those
  fields are placeholders. The quotients of the examples are doubles, so their float
  division is exact. OpenCV reads \<open>clips/cat.png\<close>
  as an image of 480 by 640, raises on \<open>clips/huge.png\<close> and cannot read anything else.
  The sort of this environment is insertion sort on numeric keys.
\<close>

definition example_frame :: dataframe where
  "example_frame =
     \<lparr>columns = [str ''path'', str ''aes''],
      rows = [[(str ''path'', Str (str ''a.mp4'')), (str ''aes'', Num (2 / 10))],
              [(str ''path'', Str (str ''b.mp4'')), (str ''aes'', Num (9 / 10))],
              [(str ''path'', Str (str ''c.png'')), (str ''aes'', Num (5 / 10))]]\<rparr>"

definition example_reference :: dataframe where
  "example_reference =
     \<lparr>columns = [str ''path''],
      rows = [[(str ''path'', Str (str ''b.mp4''))], [(str ''path'', Str (str ''z.mp4''))]]\<rparr>"

definition example_captions :: dataframe where
  "example_captions =
     \<lparr>columns = [str ''path'', str ''text''],
      rows = [[(str ''path'', Str (str ''a.mp4'')), (str ''text'', Str (str ''The video shows a cat.''))],
              [(str ''path'', Str (str ''b.mp4'')), (str ''text'', Str (str ''A dog runs.''))]]\<rparr>"

definition numeric_key :: "pystr \<Rightarrow> (pystr \<times> pyval) list \<Rightarrow> rat" where
  "numeric_key c r = (case cell c r of Num x \<Rightarrow> x | _ \<Rightarrow> 0)"

definition example_python :: python where
  "example_python =
     \<lparr>uc_islower = (\<lambda>c. c = 233 \<or> c = 223),
      uc_upper = (\<lambda>c. if c = 233 then [201] else if c = 223 then [83, 83] else [c]),
      uc_lower = (\<lambda>s. s),
      truediv = (\<lambda>a b. of_int a / of_int b),
      format_float = (\<lambda>x. str ''?'')\<rparr>"

definition example_cv2 :: cv2 where
  "example_cv2 =
     \<lparr>imread = (\<lambda>p. if p = str ''clips/cat.png'' then Inr (Some (480, 640))
                     else if p = str ''clips/huge.png'' then Inl Cv2Error
                     else Inr None),
      cap_get = (\<lambda>p prop. Inr (Num 0))\<rparr>"

definition example_env :: env where
  "example_env =
     \<lparr>glob = (\<lambda>p. [p]),
      read_csv = (\<lambda>p. if p = str ''meta.csv'' then Inr example_frame
                       else if p = str ''captions.csv'' then Inr example_captions
                       else Inl OSError),
      os_path_exists = (\<lambda>v. Inr True),
      os_path_relpath = (\<lambda>v start. Inr v),
      str_len_positive = (\<lambda>vs. Inr (map (\<lambda>v. case v of Str s \<Rightarrow> s \<noteq> [] | _ \<Rightarrow> False) vs)),
      url_free = (\<lambda>vs. Inr (map (\<lambda>v. True) vs)),
      detect_lang = (\<lambda>v. Inr True),
      runtime = example_python,
      video = example_cv2,
      sort_values = (\<lambda>data c asc.
        bind (column c data) (\<lambda>_.
        Inr (data\<lparr>rows := (if asc then sort_key (numeric_key c) (rows data)
                           else rev (sort_key (numeric_key c) (rows data)))\<rparr>))),
      html5 = html5_xml\<rparr>"

definition no_options :: args where
  "no_options =
     \<lparr>args_input = [str ''meta.csv''], args_output = None, disable_parallel = False, shard = None,
      sort_descending = None, sort_ascending = None, difference = None, intersection = None,
      relpath = None, abspath = None, ext = False, remove_empty_caption = False, lang = None,
      remove_url = False, remove_caption_prefix_flag = False, unescape = False, info = False,
      fmin = None, fmax = None, aesmin = None, matchmin = None\<rparr>"

section \<open>Properties of the caption normaliser\<close>

subsection \<open>Whitespace trimming\<close>

lemma strip_all_space: "\<forall>c\<in>set ws. isspace c \<Longrightarrow> strip ws = []"
  by (auto simp: strip_def dest: set_dropWhileD)

subsection \<open>The loop over the prefixes\<close>

lemma loop_no_match:
  "\<forall>p\<in>set ps. \<not> startswith s p \<Longrightarrow> remove_caption_prefix_loop u ps (Str s) = Inr PyNone"
  by (induction ps) auto



lemma prefix_only_loop:
  assumes "\<forall>c\<in>set ws. isspace c"
  shows "\<forall>p\<in>set LLAVA_PREFIX.
           remove_caption_prefix_loop u LLAVA_PREFIX (Str (p @ ws)) = Inl IndexError"
proof -
  have s: "strip ws = []" using assms by (rule strip_all_space)
  show ?thesis
    unfolding LLAVA_PREFIX_def by (simp add: str_def startswith_def s bind_def)
qed

lemmas caption_eval =
  remove_caption_prefix_def LLAVA_PREFIX_def str_def startswith_def strip_def
  isspace_def whitespace_def islower_def upper_def bind_def example_python_def

subsection \<open>Claims about prefix removal\<close>




text \<open>
  C10. A caption made of one of the fixed prefixes followed by whitespace only (or by
  nothing, as "The video shows") makes \<^verbatim>\<open>remove_caption_prefix\<close> raise IndexError:
  after the prefix is cut off and the rest is trimmed, \<^verbatim>\<open>caption[0]\<close> indexes the empty
  string. The function is not total on strings.
\<close>

theorem prefix_then_whitespace_raises:
  assumes "p \<in> set LLAVA_PREFIX" and "\<forall>c\<in>set ws. isspace c"
  shows "remove_caption_prefix u (Str (p @ ws)) = Inl IndexError"
  unfolding remove_caption_prefix_def using prefix_only_loop[OF assms(2)] assms(1) by blast

theorem prefix_then_whitespace_raises_witness:
  "str ''The video shows'' \<in> set LLAVA_PREFIX \<and>
   remove_caption_prefix example_python (Str (str ''The video shows'')) = Inl IndexError \<and>
   remove_caption_prefix example_python (Str (str ''The video shows'' @ str ''  '')) = Inl IndexError"
proof -
  have h1: "str ''The video shows'' \<in> set LLAVA_PREFIX" by (simp add: LLAVA_PREFIX_def)
  have h2: "\<forall>c\<in>set (str ''  ''). isspace c" by (simp add: str_def isspace_def whitespace_def)
  have h3: "\<forall>c\<in>set ([]::pystr). isspace c" by simp
  from prefix_then_whitespace_raises[OF h1 h2, of example_python]
       prefix_then_whitespace_raises[OF h1 h3, of example_python] h1
  show ?thesis by simp
qed

text \<open>
  C2. On "The video shows a cat." the first application returns "A cat."; the second,
  applied to "A cat.", finds no prefix, falls off the end of the function and returns
  \<^verbatim>\<open>None\<close>. Applying the function twice does not give what applying it once gives.
\<close>

theorem remove_caption_prefix_twice_returns_none:
  "remove_caption_prefix u (Str (str ''The video shows a cat.'')) = Inr (Str (str ''A cat.'')) \<and>
   remove_caption_prefix u (Str (str ''A cat.'')) = Inr PyNone \<and>
   bind (remove_caption_prefix u (Str (str ''The video shows a cat.''))) (remove_caption_prefix u)
     = Inr PyNone"
  by (simp add: caption_eval)

section \<open>Properties of the table operations\<close>

subsection \<open>Difference and intersection\<close>

lemma mask_filter: "map fst (filter snd (zip xs (map P xs))) = filter P xs"
  by (induction xs) auto

lemma select_map: "select (map P (rows data)) data = data\<lparr>rows := filter P (rows data)\<rparr>"
  by (simp add: select_def mask_filter)

text \<open>
  C7. For a dataset and a reference table that both have a \<open>path\<close> column, the
  difference keeps the rows whose path is not among the reference's paths and the
  intersection keeps those whose path is among them (equality of the cell values, which
  for strings is equality of the strings); the two row sets are disjoint and their union
  is the dataset's row set. Both keep the rows in their original order.
\<close>

theorem difference_intersection_complement:
  assumes "str ''path'' \<in> set (columns data)" and "str ''path'' \<in> set (columns ref)"
  shows "\<exists>ref_paths.
           column (str ''path'') ref = Inr ref_paths \<and>
           make_difference data ref =
             Inr (data\<lparr>rows := filter (\<lambda>r. cell (str ''path'') r \<notin> set ref_paths) (rows data)\<rparr>) \<and>
           make_intersection data ref =
             Inr (data\<lparr>rows := filter (\<lambda>r. cell (str ''path'') r \<in> set ref_paths) (rows data)\<rparr>) \<and>
           set (filter (\<lambda>r. cell (str ''path'') r \<notin> set ref_paths) (rows data)) \<inter>
             set (filter (\<lambda>r. cell (str ''path'') r \<in> set ref_paths) (rows data)) = {} \<and>
           set (filter (\<lambda>r. cell (str ''path'') r \<notin> set ref_paths) (rows data)) \<union>
             set (filter (\<lambda>r. cell (str ''path'') r \<in> set ref_paths) (rows data)) = set (rows data)"
proof -
  define ref_paths where "ref_paths = map (cell (str ''path'')) (rows ref)"
  have c: "column (str ''path'') ref = Inr ref_paths"
    using assms(2) by (simp add: column_def ref_paths_def)
  have cd: "column (str ''path'') data = Inr (map (cell (str ''path'')) (rows data))"
    using assms(1) by (simp add: column_def)
  have m1: "map Not (isin (map (cell (str ''path'')) (rows data)) ref_paths)
        = map (\<lambda>r. cell (str ''path'') r \<notin> set ref_paths) (rows data)"
    by (simp add: isin_def)
  have m2: "isin (map (cell (str ''path'')) (rows data)) ref_paths
        = map (\<lambda>r. cell (str ''path'') r \<in> set ref_paths) (rows data)"
    by (simp add: isin_def)
  have d: "make_difference data ref =
             Inr (data\<lparr>rows := filter (\<lambda>r. cell (str ''path'') r \<notin> set ref_paths) (rows data)\<rparr>)"
    unfolding make_difference_def c cd bind_def by (simp only: sum.case m1 select_map)
  have i: "make_intersection data ref =
             Inr (data\<lparr>rows := filter (\<lambda>r. cell (str ''path'') r \<in> set ref_paths) (rows data)\<rparr>)"
    unfolding make_intersection_def c cd bind_def by (simp only: sum.case m2 select_map)
  have "set (filter (\<lambda>r. cell (str ''path'') r \<notin> set ref_paths) (rows data)) \<inter>
             set (filter (\<lambda>r. cell (str ''path'') r \<in> set ref_paths) (rows data)) = {}" by auto
  moreover have "set (filter (\<lambda>r. cell (str ''path'') r \<notin> set ref_paths) (rows data)) \<union>
             set (filter (\<lambda>r. cell (str ''path'') r \<in> set ref_paths) (rows data)) = set (rows data)" by auto
  ultimately show ?thesis using c d i by blast
qed

theorem difference_intersection_complement_witness:
  "(\<exists>ref_paths.
      column (str ''path'') example_reference = Inr ref_paths \<and>
      make_difference example_frame example_reference =
        Inr (example_frame\<lparr>rows := filter (\<lambda>r. cell (str ''path'') r \<notin> set ref_paths) (rows example_frame)\<rparr>) \<and>
      make_intersection example_frame example_reference =
        Inr (example_frame\<lparr>rows := filter (\<lambda>r. cell (str ''path'') r \<in> set ref_paths) (rows example_frame)\<rparr>) \<and>
      set (filter (\<lambda>r. cell (str ''path'') r \<notin> set ref_paths) (rows example_frame)) \<inter>
        set (filter (\<lambda>r. cell (str ''path'') r \<in> set ref_paths) (rows example_frame)) = {} \<and>
      set (filter (\<lambda>r. cell (str ''path'') r \<notin> set ref_paths) (rows example_frame)) \<union>
        set (filter (\<lambda>r. cell (str ''path'') r \<in> set ref_paths) (rows example_frame))
        = set (rows example_frame)) \<and>
   make_difference example_frame example_reference =
     Inr (example_frame\<lparr>rows :=
       [[(str ''path'', Str (str ''a.mp4'')), (str ''aes'', Num (2 / 10))],
        [(str ''path'', Str (str ''c.png'')), (str ''aes'', Num (5 / 10))]]\<rparr>) \<and>
   make_intersection example_frame example_reference =
     Inr (example_frame\<lparr>rows :=
       [[(str ''path'', Str (str ''b.mp4'')), (str ''aes'', Num (9 / 10))]]\<rparr>)"
proof -
  have h1: "str ''path'' \<in> set (columns example_frame)" by (simp add: example_frame_def)
  have h2: "str ''path'' \<in> set (columns example_reference)" by (simp add: example_reference_def)
  have d: "make_difference example_frame example_reference =
     Inr (example_frame\<lparr>rows :=
       [[(str ''path'', Str (str ''a.mp4'')), (str ''aes'', Num (2 / 10))],
        [(str ''path'', Str (str ''c.png'')), (str ''aes'', Num (5 / 10))]]\<rparr>)"
    by (simp add: make_difference_def column_def cell_def isin_def select_def bind_def
        example_frame_def example_reference_def str_def)
  have i: "make_intersection example_frame example_reference =
     Inr (example_frame\<lparr>rows :=
       [[(str ''path'', Str (str ''b.mp4'')), (str ''aes'', Num (9 / 10))]]\<rparr>)"
    by (simp add: make_intersection_def column_def cell_def isin_def select_def bind_def
        example_frame_def example_reference_def str_def)
  from difference_intersection_complement[OF h1 h2] d i show ?thesis by blast
qed

subsection \<open>Sharding\<close>

lemma cumsum_from_nth:
  "i < length sizes \<Longrightarrow> cumsum_from a sizes ! i = a + sum_list (take (Suc i) sizes)"
proof (induction sizes arbitrary: a i)
  case Nil
  then show ?case by simp
next
  case (Cons s sizes)
  then show ?case by (cases i) (simp_all add: add.assoc)
qed

lemma div_points_nth:
  assumes "i < length sizes"
  shows "cumsum (0 # sizes) ! i = sum_list (take i sizes)"
    and "cumsum (0 # sizes) ! Suc i = sum_list (take (Suc i) sizes)"
proof -
  have c: "cumsum (0 # sizes) = 0 # cumsum_from 0 sizes" by (simp add: cumsum_def)
  show "cumsum (0 # sizes) ! Suc i = sum_list (take (Suc i) sizes)"
    using assms by (simp add: c cumsum_from_nth)
  show "cumsum (0 # sizes) ! i = sum_list (take i sizes)"
  proof (cases i)
    case 0
    then show ?thesis by (simp add: c)
  next
    case (Suc k)
    with assms have "k < length sizes" by simp
    then show ?thesis using Suc by (simp add: c cumsum_from_nth)
  qed
qed

lemma concat_slices:
  "concat (map (\<lambda>i. take (sizes ! i) (drop (sum_list (take i sizes)) xs)) [0..<length sizes])
     = take (sum_list sizes) xs"
proof (induction sizes rule: rev_induct)
  case Nil
  then show ?case by simp
next
  case (snoc s sizes)
  have "map (\<lambda>i. take ((sizes @ [s]) ! i) (drop (sum_list (take i (sizes @ [s]))) xs)) [0..<length sizes]
      = map (\<lambda>i. take (sizes ! i) (drop (sum_list (take i sizes)) xs)) [0..<length sizes]"
    by (rule map_cong) (simp_all add: nth_append)
  then have "concat (map (\<lambda>i. take ((sizes @ [s]) ! i) (drop (sum_list (take i (sizes @ [s]))) xs)) [0..<length sizes])
      = take (sum_list sizes) xs"
    using snoc.IH by (simp only:)
  moreover have "[0..<length (sizes @ [s])] = [0..<length sizes] @ [length sizes]" by simp
  ultimately have "concat (map (\<lambda>i. take ((sizes @ [s]) ! i) (drop (sum_list (take i (sizes @ [s]))) xs))
        [0..<length (sizes @ [s])])
      = take (sum_list sizes) xs @ take s (drop (sum_list sizes) xs)"
    by simp
  then show ?case by (simp add: take_add)
qed

lemma section_sizes_facts:
  fixes L N i :: nat
  assumes "0 < N"
  shows "length (replicate (L mod N) (L div N + 1) @ replicate (N - L mod N) (L div N)) = N"
    and "sum_list (replicate (L mod N) (L div N + 1) @ replicate (N - L mod N) (L div N)) = L"
    and "i < N \<Longrightarrow> (replicate (L mod N) (L div N + 1) @ replicate (N - L mod N) (L div N)) ! i
           = L div N + (if i < L mod N then 1 else 0)"
proof -
  have lt: "L mod N < N" using assms(1) by simp
  then show "length (replicate (L mod N) (L div N + 1) @ replicate (N - L mod N) (L div N)) = N"
    by simp
  have "sum_list (replicate (L mod N) (L div N + 1) @ replicate (N - L mod N) (L div N))
      = (L mod N) * (L div N + 1) + (N - L mod N) * (L div N)"
    by (simp add: sum_list_replicate)
  also have "\<dots> = (L mod N + (N - L mod N)) * (L div N) + L mod N"
    by (simp add: algebra_simps)
  also have "\<dots> = N * (L div N) + L mod N" using lt by simp
  also have "\<dots> = L" by simp
  finally show "sum_list (replicate (L mod N) (L div N + 1) @ replicate (N - L mod N) (L div N)) = L" .
  show "i < N \<Longrightarrow> (replicate (L mod N) (L div N + 1) @ replicate (N - L mod N) (L div N)) ! i
           = L div N + (if i < L mod N then 1 else 0)"
    using lt by (simp add: nth_append)
qed

lemma sum_take_le: "sum_list (take i (sizes::nat list)) \<le> sum_list sizes"
proof -
  have "sum_list sizes = sum_list (take i sizes) + sum_list (drop i sizes)"
    by (metis append_take_drop_id sum_list_append)
  then show ?thesis by simp
qed

lemma array_split_shards:
  assumes "0 < n"
  shows "\<exists>shards. array_split xs n = Inr shards \<and> length shards = nat n \<and> concat shards = xs \<and>
      (\<forall>i<nat n. length (shards ! i) = length xs div nat n + (if i < length xs mod nat n then 1 else 0)) \<and>
      (\<forall>i<nat n. \<forall>j<nat n. length (shards ! i) \<le> length (shards ! j) + 1)"
proof -
  define N where "N = nat n"
  define L where "L = length xs"
  define sizes where "sizes = replicate (L mod N) (L div N + 1) @ replicate (N - L mod N) (L div N)"
  define shards where
    "shards = map (\<lambda>i. slice xs (cumsum ([0] @ sizes) ! i) (cumsum ([0] @ sizes) ! (i + 1))) [0..<N]"
  have N: "0 < N" using assms by (simp add: N_def)
  note f = section_sizes_facts[OF N, where L = L, folded sizes_def]
  have a: "array_split xs n = Inr shards"
    using assms by (simp add: array_split_def shards_def sizes_def N_def L_def Let_def)
  have sl: "slice xs (cumsum ([0] @ sizes) ! i) (cumsum ([0] @ sizes) ! (i + 1))
      = take (sizes ! i) (drop (sum_list (take i sizes)) xs)" if "i < length sizes" for i
    using that by (simp add: div_points_nth slice_def take_Suc_conv_app_nth)
  have sh: "shards = map (\<lambda>i. take (sizes ! i) (drop (sum_list (take i sizes)) xs)) [0..<length sizes]"
    unfolding shards_def f(1) using sl f(1) by (intro map_cong) auto
  have c: "concat shards = xs"
    unfolding sh concat_slices f(2) by (simp add: L_def)
  have len: "length (shards ! i) = L div N + (if i < L mod N then 1 else 0)" if "i < N" for i
  proof -
    have "sum_list (take (Suc i) sizes) \<le> L" using sum_take_le[of "Suc i" sizes] f(2) by simp
    moreover have "sum_list (take (Suc i) sizes) = sum_list (take i sizes) + sizes ! i"
      using that f(1) by (simp add: take_Suc_conv_app_nth)
    ultimately have "sizes ! i \<le> length xs - sum_list (take i sizes)" by (simp add: L_def)
    then have "length (shards ! i) = sizes ! i"
      using that f(1) by (simp add: sh)
    then show ?thesis using f(3)[of i] that by simp
  qed
  have "length (shards ! i) \<le> length (shards ! j) + 1" if "i < N" "j < N" for i j
    using len[OF that(1)] len[OF that(2)] by simp
  moreover have "length shards = N" by (simp add: shards_def)
  ultimately show ?thesis using a c len unfolding N_def L_def by blast
qed

text \<open>
  C8. With \<^verbatim>\<open>--shard n\<close>, \<open>n > 0\<close> (numpy refuses the others), the driver writes \<open>n\<close>
  files; the rows of the files, taken in the order of the files, are the rows of the
  table in their order, so every file holds a contiguous run of the rows; file \<open>i\<close> is
  named by replacing \<open>.csv\<close> with \<open>_i.csv\<close>, keeps the columns, and holds
  \<open>length div n\<close> rows, one more for the first \<open>length mod n\<close> files, so two files'
  sizes differ by at most 1.
\<close>

theorem save_shards:
  assumes "shard a = Some n" and "0 < n"
  shows "\<exists>files. save a output_path data = Inr files \<and> length files = nat n \<and>
     concat (map (\<lambda>f. rows (snd f)) files) = rows data \<and>
     (\<forall>i<nat n.
        fst (files ! i) = replace output_path (str ''.csv'') (str ''_'' @ str_of_nat i @ str ''.csv'') \<and>
        columns (snd (files ! i)) = columns data \<and>
        length (rows (snd (files ! i)))
          = length (rows data) div nat n + (if i < length (rows data) mod nat n then 1 else 0)) \<and>
     (\<forall>i<nat n. \<forall>j<nat n.
        length (rows (snd (files ! i))) \<le> length (rows (snd (files ! j))) + 1)"
proof -
  from array_split_shards[OF assms(2), of "rows data"] obtain shards where
    s: "array_split (rows data) n = Inr shards" "length shards = nat n" "concat shards = rows data"
      "\<forall>i<nat n. length (shards ! i)
          = length (rows data) div nat n + (if i < length (rows data) mod nat n then 1 else 0)"
      "\<forall>i<nat n. \<forall>j<nat n. length (shards ! i) \<le> length (shards ! j) + 1"
    by blast
  define files where "files =
    map (\<lambda>i. (replace output_path (str ''.csv'') (str ''_'' @ str_of_nat i @ str ''.csv''),
               data\<lparr>rows := shards ! i\<rparr>)) [0..<nat n]"
  have sv: "save a output_path data = Inr files"
    using assms(1) s(1) by (simp add: save_def bind_def files_def)
  have len: "length files = nat n" by (simp add: files_def)
  have "map (\<lambda>f. rows (snd f)) files = map ((!) shards) [0..<length shards]"
    by (simp add: files_def s(2) comp_def)
  then have cc: "concat (map (\<lambda>f. rows (snd f)) files) = rows data"
    by (simp add: map_nth s(3))
  have each: "fst (files ! i) = replace output_path (str ''.csv'') (str ''_'' @ str_of_nat i @ str ''.csv'')
      \<and> columns (snd (files ! i)) = columns data \<and> rows (snd (files ! i)) = shards ! i"
    if "i < nat n" for i
    using that by (simp add: files_def)
  from each s(4) have p1: "\<forall>i<nat n.
        fst (files ! i) = replace output_path (str ''.csv'') (str ''_'' @ str_of_nat i @ str ''.csv'') \<and>
        columns (snd (files ! i)) = columns data \<and>
        length (rows (snd (files ! i)))
          = length (rows data) div nat n + (if i < length (rows data) mod nat n then 1 else 0)"
    by simp
  from each s(5) have p2: "\<forall>i<nat n. \<forall>j<nat n.
        length (rows (snd (files ! i))) \<le> length (rows (snd (files ! j))) + 1"
    by simp
  from sv len cc p1 p2 show ?thesis by blast
qed

lemmas main_eval = main_def load_def stage_difference_def stage_intersection_def get_output_path_def
  prepare_def pre_filters_def processing_def post_filters_def sort_stage_def save_def
  example_env_def no_options_def example_frame_def pd_concat_def column_def cell_def
  numeric_key_def bind_def str_def basename_def split_dot_first_def rfind_def Let_def

lemma array_split_3_2: "array_split [x, y, z] 2 = Inr [[x, y], [z]]"
proof -
  have m: "(3::nat) mod 2 = 1" "(3::nat) div 2 = 1" by simp_all
  show ?thesis
    by (simp add: array_split_def cumsum_def slice_def Let_def m upt_conv_Cons nth_Cons')
qed

theorem save_shards_witness:
  "(\<exists>files. save (no_options\<lparr>shard := Some 2\<rparr>) (str ''out.csv'') example_frame = Inr files \<and>
      length files = nat 2 \<and>
      concat (map (\<lambda>f. rows (snd f)) files) = rows example_frame \<and>
      (\<forall>i<nat 2.
        fst (files ! i) = replace (str ''out.csv'') (str ''.csv'') (str ''_'' @ str_of_nat i @ str ''.csv'') \<and>
        columns (snd (files ! i)) = columns example_frame \<and>
        length (rows (snd (files ! i)))
          = length (rows example_frame) div nat 2
            + (if i < length (rows example_frame) mod nat 2 then 1 else 0)) \<and>
      (\<forall>i<nat 2. \<forall>j<nat 2.
        length (rows (snd (files ! i))) \<le> length (rows (snd (files ! j))) + 1)) \<and>
   save (no_options\<lparr>shard := Some 2\<rparr>) (str ''out.csv'') example_frame =
     Inr [(str ''out_0.csv'',
           example_frame\<lparr>rows :=
             [[(str ''path'', Str (str ''a.mp4'')), (str ''aes'', Num (2 / 10))],
              [(str ''path'', Str (str ''b.mp4'')), (str ''aes'', Num (9 / 10))]]\<rparr>),
          (str ''out_1.csv'',
           example_frame\<lparr>rows :=
             [[(str ''path'', Str (str ''c.png'')), (str ''aes'', Num (5 / 10))]]\<rparr>)] \<and>
   map fst (projr (main example_env (no_options\<lparr>shard := Some 2\<rparr>)))
     = [str ''meta_0.csv'', str ''meta_1.csv'']"
proof -
  have h1: "shard (no_options\<lparr>shard := Some 2\<rparr>) = Some 2" by simp
  have h2: "(0::int) < 2" by simp
  have e: "save (no_options\<lparr>shard := Some 2\<rparr>) (str ''out.csv'') example_frame =
     Inr [(str ''out_0.csv'',
           example_frame\<lparr>rows :=
             [[(str ''path'', Str (str ''a.mp4'')), (str ''aes'', Num (2 / 10))],
              [(str ''path'', Str (str ''b.mp4'')), (str ''aes'', Num (9 / 10))]]\<rparr>),
          (str ''out_1.csv'',
           example_frame\<lparr>rows :=
             [[(str ''path'', Str (str ''c.png'')), (str ''aes'', Num (5 / 10))]]\<rparr>)]"
    by (simp add: save_def bind_def example_frame_def array_split_3_2 str_def upt_conv_Cons)
  have m: "map fst (projr (main example_env (no_options\<lparr>shard := Some 2\<rparr>)))
     = [str ''meta_0.csv'', str ''meta_1.csv'']"
    by (simp add: main_eval dirname_def join_def startswith_def suffix_if_def suffix_opt_def
        array_split_3_2 upt_conv_Cons)
  from save_shards[OF h1 h2, of "str ''out.csv''" example_frame] e m show ?thesis by blast
qed

section \<open>Properties of the media prober\<close>

lemma img_extension_lower: "e \<in> set IMG_EXTENSIONS \<Longrightarrow> lower u e = e"
  by (auto simp: IMG_EXTENSIONS_def str_def lower_def)

lemmas prober_eval = get_video_info_def aspect_ratio_of_def splitext_def rfind_def str_def Let_def
  lower_def IMG_EXTENSIONS_def example_cv2_def example_python_def bind_def

text \<open>
  C6. The function can raise on an image path: it has no handler, so an exception of
  \<^verbatim>\<open>cv2.imread\<close> ends the call. In the example environment OpenCV raises on
  \<open>clips/huge.png\<close>.
\<close>

theorem get_video_info_raises_counterexample:
  "lower example_python (snd (splitext (str ''clips/huge.png''))) \<in> set IMG_EXTENSIONS \<and>
   get_video_info example_python example_cv2 (Str (str ''clips/huge.png'')) = Inl Cv2Error"
  by (simp add: prober_eval)

text \<open>
  C6, amended. For a path whose extension (lowercased, as the code compares it; the
  listed extensions are lowercase already) is one of the still-image extensions: when
  \<^verbatim>\<open>cv2.imread\<close> returns an image, \<^verbatim>\<open>get_video_info\<close> returns \<open>num_frames = 1\<close>, the
  image's height and width, the float \<open>height / width\<close> when \<open>width > 0\<close> and nan
  otherwise, and \<open>fps = nan\<close>; when \<^verbatim>\<open>cv2.imread\<close> returns \<^verbatim>\<open>None\<close> (it could not read
  the file) the result is \<open>(0, 0, 0, nan, nan)\<close>; when \<^verbatim>\<open>cv2.imread\<close> raises, so does
  \<^verbatim>\<open>get_video_info\<close>.
\<close>

theorem get_video_info_image:
  assumes "lower u (snd (splitext p)) \<in> set IMG_EXTENSIONS"
  shows "get_video_info u c (Str p) =
           (case imread c p of
              Inl e \<Rightarrow> Inl e
            | Inr None \<Rightarrow> Inr (0, 0, 0, NaN, NaN)
            | Inr (Some (height, width)) \<Rightarrow>
                Inr (1, height, width,
                     (if width > 0 then Num (truediv u height width) else NaN), NaN))"
  using assms
  by (simp add: get_video_info_def aspect_ratio_of_def bind_def Let_def
      split: sum.splits option.splits)

theorem get_video_info_image_witness:
  "get_video_info example_python example_cv2 (Str (str ''clips/cat.png''))
     = Inr (1, 480, 640, Num (3 / 4), NaN) \<and>
   get_video_info example_python example_cv2 (Str (str ''clips/gone.JPG''))
     = Inr (0, 0, 0, NaN, NaN) \<and>
   get_video_info example_python example_cv2 (Str (str ''clips/huge.png'')) = Inl Cv2Error"
proof -
  have h1: "lower example_python (snd (splitext (str ''clips/cat.png''))) \<in> set IMG_EXTENSIONS"
    by (simp add: splitext_def rfind_def str_def Let_def lower_def IMG_EXTENSIONS_def)
  have h2: "lower example_python (snd (splitext (str ''clips/gone.JPG''))) \<in> set IMG_EXTENSIONS"
    by (simp add: splitext_def rfind_def str_def Let_def lower_def IMG_EXTENSIONS_def)
  have h3: "lower example_python (snd (splitext (str ''clips/huge.png''))) \<in> set IMG_EXTENSIONS"
    by (simp add: splitext_def rfind_def str_def Let_def lower_def IMG_EXTENSIONS_def)
  from get_video_info_image[OF h1, of example_cv2]
       get_video_info_image[OF h2, of example_cv2]
       get_video_info_image[OF h3, of example_cv2]
  show ?thesis by (simp add: example_cv2_def example_python_def str_def)
qed

section \<open>Properties of \<^verbatim>\<open>html.unescape\<close>\<close>


subsection \<open>A match is a prefix of the text it is tried on\<close>






subsection \<open>Claims about unescaping\<close>




section \<open>Properties of the driver\<close>

subsection \<open>The output path and the two sort options\<close>

lemma get_output_path_explicit:
  "args_output a = Some out \<Longrightarrow> get_output_path e a name = Inr out"
  by (simp add: get_output_path_def)

lemma get_output_path_conflict:
  assumes "args_output a = None" "sort_descending a \<noteq> None" "sort_ascending a \<noteq> None"
  shows "isl (get_output_path e a name)"
  using assms by (auto simp: get_output_path_def bind_def Let_def split: list.splits option.splits)

lemma isl_bind: "isl m \<Longrightarrow> isl (bind m f)"
  by (cases m) (simp_all add: bind_def)

lemma isl_bind_cont: "(\<And>x. isl (f x)) \<Longrightarrow> isl (bind m f)"
  by (cases m) (simp_all add: bind_def)

text \<open>
  Without \<^verbatim>\<open>--output\<close>, a run with both sort options ends in an exception, and so
  writes no file: if nothing fails earlier, \<^verbatim>\<open>get_output_path\<close> fails its assertion.
\<close>

lemma main_conflict_aborts:
  assumes "args_output a = None" "sort_descending a \<noteq> None" "sort_ascending a \<noteq> None"
  shows "isl (main e a)"
  unfolding main_def
  by (intro isl_bind_cont, simp only: split_paired_all prod.case,
      intro isl_bind get_output_path_conflict assms)

lemma main_conflict_example:
  "main example_env
     (no_options\<lparr>sort_descending := Some (str ''aes''), sort_ascending := Some (str ''aes'')\<rparr>)
   = Inl AssertionError"
  by (simp add: main_eval dirname_def)

text \<open>
  C1. With \<^verbatim>\<open>--output out.csv --sort-descending aes --sort-ascending aes\<close> on the
  manifest \<open>meta.csv\<close> the run does not abort: \<^verbatim>\<open>get_output_path\<close> returns the explicit
  path before it reaches its assertions, the table is sorted descending and then
  ascending, and \<open>out.csv\<close> is written with the rows in ascending order of \<open>aes\<close>.
\<close>

theorem main_both_sorts_with_output:
  "main example_env
     (no_options\<lparr>args_output := Some (str ''out.csv''),
                  sort_descending := Some (str ''aes''), sort_ascending := Some (str ''aes'')\<rparr>)
   = Inr [(str ''out.csv'',
           \<lparr>columns = [str ''path'', str ''aes''],
            rows = [[(str ''path'', Str (str ''a.mp4'')), (str ''aes'', Num (2 / 10))],
                    [(str ''path'', Str (str ''c.png'')), (str ''aes'', Num (5 / 10))],
                    [(str ''path'', Str (str ''b.mp4'')), (str ''aes'', Num (9 / 10))]]\<rparr>)]"
  by (simp add: main_eval)

subsection \<open>Rewriting a column\<close>

lemma apply_column_nth:
  "apply_column f xs = Inr ys \<Longrightarrow>
     length ys = length xs \<and> (\<forall>i<length xs. f (xs ! i) = Inr (ys ! i))"
proof (induction xs arbitrary: ys)
  case Nil
  then show ?case by simp
next
  case (Cons x xs)
  from Cons.prems obtain y zs where y: "f x = Inr y" and zs: "apply_column f xs = Inr zs"
    and ys: "ys = y # zs"
    by (auto simp: bind_def split: sum.splits)
  from Cons.IH[OF zs] have l: "length zs = length xs" and n: "\<forall>i<length xs. f (xs ! i) = Inr (zs ! i)"
    by simp_all
  have "f ((x # xs) ! i) = Inr (ys ! i)" if "i < length (x # xs)" for i
    using that y n ys by (cases i) simp_all
  with l ys show ?case by simp
qed

lemma cell_update: "cell c' (AList.update c v r) = (if c' = c then v else cell c' r)"
  by (simp add: cell_def update_conv')

lemma set_column_rows:
  assumes "length vs = length (rows data)"
  shows "length (rows (set_column c vs data)) = length (rows data)"
    and "i < length (rows data) \<Longrightarrow>
           cell c' (rows (set_column c vs data) ! i) = (if c' = c then vs ! i else cell c' (rows data ! i))"
  using assms by (simp_all add: set_column_def cell_update)

lemma process_column_result:
  assumes "process_column b c f data = Inr data'"
  shows "length (rows data') = length (rows data)"
    and "i < length (rows data) \<Longrightarrow> f (cell c (rows data ! i)) = Inr (cell c (rows data' ! i))"
    and "i < length (rows data) \<Longrightarrow> c' \<noteq> c \<Longrightarrow> cell c' (rows data' ! i) = cell c' (rows data ! i)"
proof -
  from assms obtain vs ws where vs: "column c data = Inr vs"
    and ws: "apply_column f vs = Inr ws" and d: "data' = set_column c ws data"
    by (auto simp: process_column_def bind_def split: sum.splits if_splits)
  from vs have v: "vs = map (cell c) (rows data)" by (auto simp: column_def split: if_splits)
  from apply_column_nth[OF ws] v have l: "length ws = length (rows data)"
    and n: "\<forall>i<length (rows data). f (cell c (rows data ! i)) = Inr (ws ! i)"
    by simp_all
  show "length (rows data') = length (rows data)" using set_column_rows(1)[OF l] d by simp
  show "i < length (rows data) \<Longrightarrow> f (cell c (rows data ! i)) = Inr (cell c (rows data' ! i))"
    using set_column_rows(2)[OF l, of i c c] n d by simp
  show "i < length (rows data) \<Longrightarrow> c' \<noteq> c \<Longrightarrow> cell c' (rows data' ! i) = cell c' (rows data ! i)"
    using set_column_rows(2)[OF l, of i c' c] d by simp
qed

lemma add_info_text:
  assumes "add_info e data = Inr data'"
  shows "length (rows data') = length (rows data)"
    and "i < length (rows data) \<Longrightarrow> cell (str ''text'') (rows data' ! i) = cell (str ''text'') (rows data ! i)"
proof -
  from assms obtain paths infos where p: "column (str ''path'') data = Inr paths"
    and a: "apply_column (get_video_info (runtime e) (video e)) paths = Inr infos"
    and d: "data' =
       set_column (str ''fps'') (map (\<lambda>(n, h, w, ar, fps). fps) infos)
      (set_column (str ''aspect_ratio'') (map (\<lambda>(n, h, w, ar, fps). ar) infos)
      (set_column (str ''width'') (map (\<lambda>(n, h, w, ar, fps). Num (of_int w)) infos)
      (set_column (str ''height'') (map (\<lambda>(n, h, w, ar, fps). Num (of_int h)) infos)
      (set_column (str ''num_frames'') (map (\<lambda>(n, h, w, ar, fps). Num (of_int n)) infos)
         data))))"
    by (auto simp: add_info_def bind_def split: sum.splits if_splits)
  from p have "length paths = length (rows data)" by (auto simp: column_def split: if_splits)
  with apply_column_nth[OF a] have l: "length infos = length (rows data)" by simp
  have ne: "str ''text'' \<noteq> str ''fps''" "str ''text'' \<noteq> str ''aspect_ratio''"
    "str ''text'' \<noteq> str ''width''" "str ''text'' \<noteq> str ''height''"
    "str ''text'' \<noteq> str ''num_frames''"
    by (simp_all add: str_def)
  show "length (rows data') = length (rows data)"
    unfolding d using l by (simp add: set_column_rows(1))
  show "i < length (rows data) \<Longrightarrow> cell (str ''text'') (rows data' ! i) = cell (str ''text'') (rows data ! i)"
    unfolding d using l ne by (simp add: set_column_rows)
qed

lemma path_is_not_text: "str ''text'' \<noteq> str ''path''"
  by (simp add: str_def)

text \<open>
  The processing stage with \<^verbatim>\<open>--remove-caption-prefix\<close>, whatever the other options:
  when it returns, it has kept the number of rows, and the text cell of each row is
  what \<^verbatim>\<open>remove_caption_prefix\<close> returned for the text the row had, provided that
  value is not a string (a string may be changed further by \<^verbatim>\<open>--unescape\<close>).
\<close>

lemma processing_text:
  assumes flag: "remove_caption_prefix_flag a" and ok: "processing e a data = Inr data'"
  shows "length (rows data') = length (rows data)"
    and "i < length (rows data) \<Longrightarrow>
         remove_caption_prefix (runtime e) (cell (str ''text'') (rows data ! i)) = Inr PyNone \<Longrightarrow>
         cell (str ''text'') (rows data' ! i) = PyNone"
proof -
  from ok obtain d1 d2 d3 d4 where
    s1: "(case relpath a of None \<Rightarrow> Inr data
          | Some start \<Rightarrow> process_column False (str ''path'') (\<lambda>x. os_path_relpath e x start) data) = Inr d1"
    and s2: "(case abspath a of None \<Rightarrow> Inr d1
          | Some base \<Rightarrow> process_column False (str ''path'') (os_path_join base) d1) = Inr d2"
    and s3: "process_column True (str ''text'') (remove_caption_prefix (runtime e)) d2 = Inr d3"
    and s4: "(if unescape a then process_column True (str ''text'') (html_unescape (html5 e)) d3
          else Inr d3) = Inr d4"
    and s5: "(if info a then add_info e d4 else Inr d4) = Inr data'"
    using flag by (auto simp: processing_def bind_def split: sum.splits)
  have l1: "length (rows d1) = length (rows data)"
    and t1: "\<And>i. i < length (rows data) \<Longrightarrow> cell (str ''text'') (rows d1 ! i) = cell (str ''text'') (rows data ! i)"
    using s1 process_column_result(1,3)[of False "str ''path''" _ data d1] path_is_not_text
    by (auto split: option.splits)
  have l2: "length (rows d2) = length (rows d1)"
    and t2: "\<And>i. i < length (rows d1) \<Longrightarrow> cell (str ''text'') (rows d2 ! i) = cell (str ''text'') (rows d1 ! i)"
    using s2 process_column_result(1,3)[of False "str ''path''" _ d1 d2] path_is_not_text
    by (auto split: option.splits)
  note r3 = process_column_result[OF s3]
  have l4: "length (rows d4) = length (rows d3)"
    using s4 process_column_result(1)[of True "str ''text''" _ d3 d4] by (auto split: if_splits)
  have l5: "length (rows data') = length (rows d4)"
    and t5: "\<And>i. i < length (rows d4) \<Longrightarrow> cell (str ''text'') (rows data' ! i) = cell (str ''text'') (rows d4 ! i)"
    using s5 add_info_text[of e d4 data'] by (auto split: if_splits)
  show "length (rows data') = length (rows data)" using l1 l2 r3(1) l4 l5 by simp
  show "cell (str ''text'') (rows data' ! i) = PyNone"
    if i: "i < length (rows data)"
    and n: "remove_caption_prefix (runtime e) (cell (str ''text'') (rows data ! i)) = Inr PyNone"
  proof -
    from i l1 l2 have i2: "i < length (rows d2)" by simp
    from t1[OF i] t2 i l1 have "cell (str ''text'') (rows d2 ! i) = cell (str ''text'') (rows data ! i)"
      by simp
    with r3(2)[OF i2] n have c3: "cell (str ''text'') (rows d3 ! i) = PyNone" by simp
    have c4: "cell (str ''text'') (rows d4 ! i) = PyNone"
    proof (cases "unescape a")
      case False
      with s4 c3 show ?thesis by simp
    next
      case True
      with s4 have "process_column True (str ''text'') (html_unescape (html5 e)) d3 = Inr d4" by simp
      from process_column_result(2)[OF this, of i] i2 r3(1) c3
      have "html_unescape (html5 e) PyNone = Inr (cell (str ''text'') (rows d4 ! i))" by simp
      then show ?thesis by (simp add: html_unescape_def)
    qed
    from i2 r3(1) l4 have "i < length (rows d4)" by simp
    from t5[OF this] c4 show ?thesis by simp
  qed
qed

text \<open>
  C9. A caption that starts with none of the fixed prefixes makes
  \<^verbatim>\<open>remove_caption_prefix\<close> return \<^verbatim>\<open>None\<close>. With \<^verbatim>\<open>--remove-caption-prefix\<close>
  enabled, whatever the other options, the table that the processing stage of
  \<^verbatim>\<open>main\<close> hands on has as many rows as it received, and every row whose caption
  started with none of the prefixes has \<^verbatim>\<open>None\<close> in its text cell, not the caption.
\<close>

theorem unmatched_caption_becomes_none:
  "((\<forall>p\<in>set LLAVA_PREFIX. \<not> startswith caption p) \<longrightarrow>
      remove_caption_prefix u (Str caption) = Inr PyNone) \<and>
   (remove_caption_prefix_flag a \<and> processing e a data = Inr data' \<longrightarrow>
      length (rows data') = length (rows data) \<and>
      (\<forall>i<length (rows data). \<forall>c.
         cell (str ''text'') (rows data ! i) = Str c \<and>
         (\<forall>p\<in>set LLAVA_PREFIX. \<not> startswith c p) \<longrightarrow>
         cell (str ''text'') (rows data' ! i) = PyNone \<and>
         cell (str ''text'') (rows data' ! i) \<noteq> cell (str ''text'') (rows data ! i)))"
proof (intro conjI impI)
  assume "\<forall>p\<in>set LLAVA_PREFIX. \<not> startswith caption p"
  then show "remove_caption_prefix u (Str caption) = Inr PyNone"
    unfolding remove_caption_prefix_def by (rule loop_no_match)
next
  assume h: "remove_caption_prefix_flag a \<and> processing e a data = Inr data'"
  then show "length (rows data') = length (rows data)"
    using processing_text(1) by blast
next
  assume h: "remove_caption_prefix_flag a \<and> processing e a data = Inr data'"
  show "\<forall>i<length (rows data). \<forall>c.
         cell (str ''text'') (rows data ! i) = Str c \<and>
         (\<forall>p\<in>set LLAVA_PREFIX. \<not> startswith c p) \<longrightarrow>
         cell (str ''text'') (rows data' ! i) = PyNone \<and>
         cell (str ''text'') (rows data' ! i) \<noteq> cell (str ''text'') (rows data ! i)"
  proof (intro allI impI)
    fix i c
    assume i: "i < length (rows data)"
      and c: "cell (str ''text'') (rows data ! i) = Str c \<and> (\<forall>p\<in>set LLAVA_PREFIX. \<not> startswith c p)"
    then have "remove_caption_prefix (runtime e) (cell (str ''text'') (rows data ! i)) = Inr PyNone"
      unfolding remove_caption_prefix_def by (simp add: loop_no_match)
    with h i have "cell (str ''text'') (rows data' ! i) = PyNone"
      using processing_text(2) by blast
    with c show "cell (str ''text'') (rows data' ! i) = PyNone \<and>
         cell (str ''text'') (rows data' ! i) \<noteq> cell (str ''text'') (rows data ! i)"
      by simp
  qed
qed

text \<open>
  The witness: of the captions "The video shows a cat." and "A dog runs." the second
  starts with no prefix; the run with \<^verbatim>\<open>--remove-caption-prefix\<close> on
  \<open>captions.csv\<close> writes \<open>captions_rcp.csv\<close> with the texts "A cat." and \<^verbatim>\<open>None\<close>.
\<close>

theorem unmatched_caption_becomes_none_witness:
  "remove_caption_prefix example_python (Str (str ''A dog runs.'')) = Inr PyNone \<and>
   remove_caption_prefix example_python (Str (str ''the video shows a cat.'')) = Inr PyNone \<and>
   processing example_env (no_options\<lparr>remove_caption_prefix_flag := True\<rparr>) example_captions =
     Inr \<lparr>columns = [str ''path'', str ''text''],
          rows = [[(str ''path'', Str (str ''a.mp4'')), (str ''text'', Str (str ''A cat.''))],
                  [(str ''path'', Str (str ''b.mp4'')), (str ''text'', PyNone)]]\<rparr> \<and>
   main example_env
     (no_options\<lparr>args_input := [str ''captions.csv''], remove_caption_prefix_flag := True\<rparr>) =
     Inr [(str ''captions_rcp.csv'',
           \<lparr>columns = [str ''path'', str ''text''],
            rows = [[(str ''path'', Str (str ''a.mp4'')), (str ''text'', Str (str ''A cat.''))],
                    [(str ''path'', Str (str ''b.mp4'')), (str ''text'', PyNone)]]\<rparr>)]"
proof -
  have h1: "\<forall>p\<in>set LLAVA_PREFIX. \<not> startswith (str ''A dog runs.'') p"
    by (simp add: LLAVA_PREFIX_def str_def startswith_def)
  have h2: "\<forall>p\<in>set LLAVA_PREFIX. \<not> startswith (str ''the video shows a cat.'') p"
    by (simp add: LLAVA_PREFIX_def str_def startswith_def)
  have p: "processing example_env (no_options\<lparr>remove_caption_prefix_flag := True\<rparr>) example_captions =
     Inr \<lparr>columns = [str ''path'', str ''text''],
          rows = [[(str ''path'', Str (str ''a.mp4'')), (str ''text'', Str (str ''A cat.''))],
                  [(str ''path'', Str (str ''b.mp4'')), (str ''text'', PyNone)]]\<rparr>"
    by (simp add: processing_def process_column_def assert_column_def set_column_def column_def
        cell_def example_captions_def example_env_def no_options_def caption_eval)
  have m: "main example_env
     (no_options\<lparr>args_input := [str ''captions.csv''], remove_caption_prefix_flag := True\<rparr>) =
     Inr [(str ''captions_rcp.csv'',
           \<lparr>columns = [str ''path'', str ''text''],
            rows = [[(str ''path'', Str (str ''a.mp4'')), (str ''text'', Str (str ''A cat.''))],
                    [(str ''path'', Str (str ''b.mp4'')), (str ''text'', PyNone)]]\<rparr>)]"
    by (simp add: main_eval process_column_def assert_column_def set_column_def
        example_captions_def caption_eval dirname_def join_def suffix_if_def suffix_opt_def)
  from unmatched_caption_becomes_none[where caption = "str ''A dog runs.''" and u = example_python
         and a = "no_options\<lparr>remove_caption_prefix_flag := True\<rparr>" and e = example_env
         and data = example_captions]
       unmatched_caption_becomes_none[of "str ''the video shows a cat.''" example_python] h1 h2 p m
  show ?thesis by blast
qed

end
